theory Spec2Isabelle
  imports Complex_Main "HOL-Library.Multiset"
begin

section \<open>Cross-run variance analysis of perfcompare artifacts\<close>

text \<open>
  A shallow embedding of \<^verbatim>\<open>.github/scripts/analyze-variance.py\<close>.

  Conventions of the embedding.
  \<^item> A Python \<^verbatim>\<open>float\<close> is a \<^typ>\<open>real\<close>: arithmetic is exact, and there is no
    rounding, overflow, infinity or signed zero. The only NaN the script can create from
    finite numbers is the explicit \<^verbatim>\<open>math.nan\<close> of \<^verbatim>\<open>stats\<close>; it is the value
    \<^term>\<open>None\<close> of an option type.
  \<^item> A Python \<^verbatim>\<open>str\<close> is a \<^typ>\<open>string\<close> whose characters are code points below 256, so
    that \<^term>\<open>length\<close> is Python's \<^verbatim>\<open>len\<close>; the micro sign is \<^term>\<open>CHR 0xB5\<close>.
  \<^item> A \<^verbatim>\<open>dict\<close> is an association list in insertion order with pairwise different keys.
  \<^item> Every \<^verbatim>\<open>print\<close> is one event: the stream and the text, without the final newline.
  \<^item> An exception is a value of \<open>exn\<close>; a function that can raise returns
    \<open>exn + 'a\<close>, and one that also prints returns the events printed so far as well.
  \<^item> The GitHub API behind the \<^verbatim>\<open>gh\<close> command line client is a parameter, the \<open>world\<close>.
  \<^item> The temporary directory is a value passed from one download to the next. Of its content
    only the \<^verbatim>\<open>*.json\<close> files of the extracted directories are kept, and \<^verbatim>\<open>glob\<close> yields
    the files of a directory in the order of their first creation. Its removal at the end of
    \<^verbatim>\<open>collect_jsons\<close> has no effect on a result and is left out.
  \<^item> \<open>main\<close> starts from the parsed command line.
\<close>

subsection \<open>Exceptions and output\<close>

datatype exn =
    CalledProcessError
  | JSONDecodeError
  | BadZipFile
  | KeyError
  | IndexError
  | ZeroDivisionError
  | ValueError

text \<open>
  What ends the process early: \<^verbatim>\<open>sys.exit(n)\<close>, which only \<^verbatim>\<open>get_run_ids\<close> and \<^verbatim>\<open>main\<close>
  call, or an exception that nothing catches.
\<close>

datatype error = SystemExit nat | Uncaught exn

datatype stream = Stdout | Stderr

type_synonym event = "stream \<times> string"

definition on_stream :: "stream \<Rightarrow> event list \<Rightarrow> string list" where
  "on_stream s out = map snd (filter (\<lambda>e. fst e = s) out)"

subsection \<open>Formatting of numbers\<close>

definition digit_char :: "nat \<Rightarrow> char" where
  "digit_char n = ''0123456789'' ! n"

fun digits10 :: "nat \<Rightarrow> string" where
  "digits10 n =
     (if n < 10 then [digit_char n] else digits10 (n div 10) @ [digit_char (n mod 10)])"

declare digits10.simps [simp del]

text \<open>\<^verbatim>\<open>str(i)\<close> of an integer, as an f-string field \<^verbatim>\<open>{i}\<close> renders it.\<close>

definition str_int :: "int \<Rightarrow> string" where
  "str_int i = (if i < 0 then ''-'' else '''') @ digits10 (nat \<bar>i\<bar>)"

text \<open>\<^verbatim>\<open>", ".join(xs)\<close> and the \<^verbatim>\<open>repr\<close> of a list of integers.\<close>

fun join_comma :: "string list \<Rightarrow> string" where
  "join_comma [] = ''''"
| "join_comma [x] = x"
| "join_comma (x # y # ys) = x @ '', '' @ join_comma (y # ys)"

definition repr_int_list :: "int list \<Rightarrow> string" where
  "repr_int_list xs = ''['' @ join_comma (map str_int xs) @ '']''"

text \<open>
  The format specification \<^verbatim>\<open>.df\<close> rounds the exact value to \<open>d\<close> decimals, a tie going
  to the even neighbour, and keeps the sign of a negative value that rounds to zero.
\<close>

definition round_half_even :: "real \<Rightarrow> int" where
  "round_half_even x =
     (let f = \<lfloor>x\<rfloor>; r = x - of_int f
      in if r < 1 / 2 then f else if 1 / 2 < r then f + 1 else if even f then f else f + 1)"

definition fmt_fixed :: "nat \<Rightarrow> real \<Rightarrow> string" where
  "fmt_fixed d x =
     (let m = nat (round_half_even (\<bar>x\<bar> * 10 ^ d));
          ds = digits10 m;
          ds' = replicate (d + 1 - length ds) (CHR ''0'') @ ds;
          k = length ds' - d
      in (if x < 0 then ''-'' else '''') @ take k ds' @ (if d = 0 then '''' else ''.'' @ drop k ds'))"

text \<open>The alignments \<^verbatim>\<open><w\<close> and \<^verbatim>\<open>>w\<close> pad with spaces and never truncate.\<close>

definition ljust :: "nat \<Rightarrow> string \<Rightarrow> string" where
  "ljust w s = s @ replicate (w - length s) (CHR '' '')"

definition rjust :: "nat \<Rightarrow> string \<Rightarrow> string" where
  "rjust w s = replicate (w - length s) (CHR '' '') @ s"

subsection \<open>Helpers: \<^verbatim>\<open>format_duration\<close> and \<^verbatim>\<open>stats\<close>\<close>

definition unit_us :: string where
  "unit_us = [CHR '' '', CHR 0xB5, CHR ''s'']"

definition format_duration :: "real \<Rightarrow> string" where
  "format_duration seconds =
     (let ms = seconds * 1000
      in if ms < 1 then fmt_fixed 2 (ms * 1000) @ unit_us
         else if ms < 1000 then fmt_fixed 2 ms @ '' ms''
         else fmt_fixed 3 (ms / 1000) @ '' s'')"

text \<open>The builtins \<^verbatim>\<open>sum\<close>, \<^verbatim>\<open>max\<close> and \<^verbatim>\<open>min\<close>: left to right, the first extremum kept.\<close>

definition py_sum :: "real list \<Rightarrow> real" where
  "py_sum xs = foldl (+) 0 xs"

fun py_max :: "real list \<Rightarrow> exn + real" where
  "py_max [] = Inl ValueError"
| "py_max (x # xs) = Inr (foldl (\<lambda>m v. if m < v then v else m) x xs)"

fun py_min :: "real list \<Rightarrow> exn + real" where
  "py_min [] = Inl ValueError"
| "py_min (x # xs) = Inr (foldl (\<lambda>m v. if v < m then v else m) x xs)"

text \<open>The local variables of \<^verbatim>\<open>stats\<close>, as functions of \<^verbatim>\<open>values\<close>.\<close>

definition average :: "real list \<Rightarrow> real" where
  "average values = py_sum values / real (length values)"

definition variance :: "real list \<Rightarrow> real" where
  "variance values =
     py_sum (map (\<lambda>v. (v - average values) ^ 2) values) / real (length values)"

definition std :: "real list \<Rightarrow> real" where
  "std values = sqrt (variance values)"

definition cv :: "real list \<Rightarrow> real option" where
  "cv values = (if average values \<noteq> 0 then Some (std values / average values) else None)"

definition rc :: "real \<Rightarrow> real list \<Rightarrow> real option" where
  "rc rng values = (if average values \<noteq> 0 then Some (rng / average values) else None)"

definition percent :: "real option \<Rightarrow> string" where
  "percent c = (case c of Some x \<Rightarrow> fmt_fixed 1 (x * 100) @ ''%'' | None \<Rightarrow> ''N/A'')"

record stats_row =
  row_average :: string
  row_std :: string
  row_cv :: string
  row_range :: string
  row_range_coeff :: string
  row_cv_raw :: real

definition stats :: "real list \<Rightarrow> exn + stats_row" where
  "stats values =
     (if length values = 0 then Inl ZeroDivisionError
      else (case py_max values of
              Inl e \<Rightarrow> Inl e
            | Inr mx \<Rightarrow>
                (case py_min values of
                   Inl e \<Rightarrow> Inl e
                 | Inr mn \<Rightarrow>
                     (let rng = mx - mn
                      in Inr \<lparr> row_average = format_duration (average values),
                               row_std = format_duration (std values),
                               row_cv = percent (cv values),
                               row_range = format_duration rng,
                               row_range_coeff = percent (rc rng values),
                               row_cv_raw = (case cv values of Some c \<Rightarrow> c | None \<Rightarrow> - 1) \<rparr>))))"

subsection \<open>Dictionaries\<close>

text \<open>\<^verbatim>\<open>d[k] = v\<close>: an existing key keeps its place, a new key goes to the end.\<close>

fun dict_set :: "'k \<Rightarrow> 'v \<Rightarrow> ('k \<times> 'v) list \<Rightarrow> ('k \<times> 'v) list" where
  "dict_set k v [] = [(k, v)]"
| "dict_set k v ((k', v') # d) = (if k' = k then (k, v) # d else (k', v') # dict_set k v d)"

text \<open>\<^verbatim>\<open>d.setdefault(k, []).append(r)\<close>.\<close>

fun setdefault_append :: "'k \<Rightarrow> 'r \<Rightarrow> ('k \<times> 'r list) list \<Rightarrow> ('k \<times> 'r list) list" where
  "setdefault_append k r [] = [(k, [r])]"
| "setdefault_append k r ((k', rs) # d) =
     (if k' = k then (k', rs @ [r]) # d else (k', rs) # setdefault_append k r d)"

subsection \<open>The GitHub API and the temporary directory\<close>

text \<open>
  A hyperfine result is a JSON object; the script reads its keys \<^verbatim>\<open>"mean"\<close>, \<^verbatim>\<open>"min"\<close> and
  \<^verbatim>\<open>"times"\<close>, and a key that is absent is \<^term>\<open>None\<close>.
\<close>

record hf_result =
  hf_mean :: "real option"
  hf_min :: "real option"
  hf_times :: "real list option"

text \<open>
  A result file is what \<^verbatim>\<open>json.loads(json_file.read_text())["results"]\<close> evaluates to: the
  list of results, or the exception raised on the way.
\<close>

type_synonym json_file = "exn + hf_result list"

text \<open>A directory is the list of its \<^verbatim>\<open>*.json\<close> files, each under its stem.\<close>

type_synonym directory = "(string \<times> json_file) list"

type_synonym tmpdir = "(string \<times> directory) list"

record wf_run =
  run_id :: int
  head_branch :: "string option"
  conclusion :: "string option"

record artifact =
  artifact_id :: int
  artifact_name :: string

text \<open>
  The three requests of the script, for a repository: the runs of the perfcompare workflow,
  the artifacts of a run, and the top-level \<^verbatim>\<open>*.json\<close> members of an artifact's zip archive.
  Each one fails (\<^verbatim>\<open>check=True\<close>, a JSON or zip error) or answers.
\<close>

record world =
  api_workflow_runs :: "string \<Rightarrow> exn + wf_run list"
  api_run_artifacts :: "string \<Rightarrow> int \<Rightarrow> exn + artifact list"
  api_artifact_zip :: "string \<Rightarrow> int \<Rightarrow> exn + (string \<times> json_file) list"

definition squote :: string where
  "squote = [CHR 0x27]"

definition get_run_ids :: "world \<Rightarrow> string \<Rightarrow> string \<Rightarrow> event list \<times> (error + int list)" where
  "get_run_ids w repo branch =
     (case api_workflow_runs w repo of
        Inl e \<Rightarrow> ([], Inl (Uncaught e))
      | Inr workflow_runs \<Rightarrow>
          let runs = filter (\<lambda>r. head_branch r = Some branch \<and> conclusion r = Some ''success'')
                       workflow_runs
          in if runs = [] then
               ([(Stderr, ''No successful perfcompare runs found on branch '' @ squote @ branch
                            @ squote)],
                Inl (SystemExit 1))
             else
               ([(Stdout, ''Found '' @ str_int (int (length runs)) @ '' successful run(s) on ''
                            @ squote @ branch @ squote)],
                Inr (map run_id runs)))"

text \<open>
  \<^verbatim>\<open>extractall\<close> writes every member into the directory, over a file of the same name; the
  files already there stay (\<^verbatim>\<open>mkdir(exist_ok=True)\<close>).
\<close>

definition extractall :: "(string \<times> json_file) list \<Rightarrow> directory \<Rightarrow> directory" where
  "extractall zf dir = fold (\<lambda>(stem, f). dict_set stem f) zf dir"

definition download_artifact ::
  "world \<Rightarrow> string \<Rightarrow> artifact \<Rightarrow> tmpdir \<Rightarrow> exn + directory \<times> tmpdir" where
  "download_artifact w repo a dest =
     (case api_artifact_zip w repo (artifact_id a) of
        Inl e \<Rightarrow> Inl e
      | Inr zf \<Rightarrow>
          let out_dir = extractall zf (case map_of dest (artifact_name a) of
                                         None \<Rightarrow> [] | Some d \<Rightarrow> d)
          in Inr (out_dir, dict_set (artifact_name a) out_dir dest))"

subsection \<open>Artifact fetching: \<^verbatim>\<open>collect_jsons\<close>\<close>

text \<open>
  The loops carry one piece of ghost state: each result appended to \<^verbatim>\<open>by_bench\<close> is paired
  with the \<^verbatim>\<open>run_id\<close> of the iteration that appends it. \<open>collect_jsons\<close> drops the
  pairing before it returns.
\<close>

type_synonym tagged_bench = "(string \<times> (int \<times> hf_result) list) list"

type_synonym by_bench = "(string \<times> hf_result list) list"

definition startswith :: "string \<Rightarrow> string \<Rightarrow> bool" where
  "startswith p s = (take (length p) s = p)"

definition loaded_line :: "int \<Rightarrow> string \<Rightarrow> real list \<Rightarrow> real \<Rightarrow> string" where
  "loaded_line rid bench_name ts m =
     ''  run '' @ str_int rid @ '': loaded '' @ bench_name @ '' ('' @ str_int (int (length ts))
       @ '' samples, mean='' @ fmt_fixed 1 (m * 1000) @ ''ms)''"

fun load_files :: "int \<Rightarrow> directory \<Rightarrow> tagged_bench \<Rightarrow> event list \<times> (exn + tagged_bench)" where
  "load_files rid [] by_bench = ([], Inr by_bench)"
| "load_files rid ((bench_name, json_file) # files) by_bench =
     (case json_file of
        Inl e \<Rightarrow> ([], Inl e)
      | Inr [] \<Rightarrow> ([], Inl IndexError)
      | Inr (result # _) \<Rightarrow>
          (case hf_times result of
             None \<Rightarrow> ([], Inl KeyError)
           | Some ts \<Rightarrow>
               (case hf_mean result of
                  None \<Rightarrow> ([], Inl KeyError)
                | Some m \<Rightarrow>
                    (case load_files rid files
                            (setdefault_append bench_name (rid, result) by_bench) of
                       (out, r) \<Rightarrow> ((Stdout, loaded_line rid bench_name ts m) # out, r)))))"

fun load_artifacts ::
  "world \<Rightarrow> string \<Rightarrow> int \<Rightarrow> artifact list \<Rightarrow> tmpdir \<Rightarrow> tagged_bench
     \<Rightarrow> event list \<times> (exn + tmpdir \<times> tagged_bench)" where
  "load_artifacts w repo rid [] dest by_bench = ([], Inr (dest, by_bench))"
| "load_artifacts w repo rid (a # perf_artifacts) dest by_bench =
     (case download_artifact w repo a dest of
        Inl e \<Rightarrow> ([], Inl e)
      | Inr (out_dir, dest') \<Rightarrow>
          (case load_files rid out_dir by_bench of
             (out1, Inl e) \<Rightarrow> (out1, Inl e)
           | (out1, Inr by_bench') \<Rightarrow>
               (case load_artifacts w repo rid perf_artifacts dest' by_bench' of
                  (out2, r) \<Rightarrow> (out1 @ out2, r))))"

fun collect_runs ::
  "world \<Rightarrow> string \<Rightarrow> int list \<Rightarrow> tmpdir \<Rightarrow> tagged_bench
     \<Rightarrow> event list \<times> (exn + tagged_bench)" where
  "collect_runs w repo [] dest by_bench = ([], Inr by_bench)"
| "collect_runs w repo (rid # run_ids) dest by_bench =
     (case api_run_artifacts w repo rid of
        Inl e \<Rightarrow> ([], Inl e)
      | Inr artifacts \<Rightarrow>
          let perf_artifacts = filter (\<lambda>a. startswith ''perfcompare-'' (artifact_name a)) artifacts
          in if perf_artifacts = [] then
               (case collect_runs w repo run_ids dest by_bench of
                  (out, r) \<Rightarrow>
                    ((Stdout, ''  run '' @ str_int rid @ '': no perfcompare artifact, skipping'')
                       # out, r))
             else
               (case load_artifacts w repo rid perf_artifacts dest by_bench of
                  (out1, Inl e) \<Rightarrow> (out1, Inl e)
                | (out1, Inr (dest', by_bench')) \<Rightarrow>
                    (case collect_runs w repo run_ids dest' by_bench' of
                       (out2, r) \<Rightarrow> (out1 @ out2, r))))"

definition collect_tagged ::
  "world \<Rightarrow> string \<Rightarrow> int list \<Rightarrow> event list \<times> (exn + tagged_bench)" where
  "collect_tagged w repo run_ids = collect_runs w repo run_ids [] []"

definition untag :: "tagged_bench \<Rightarrow> by_bench" where
  "untag tb = map (\<lambda>(bench, rs). (bench, map snd rs)) tb"

definition collect_jsons :: "world \<Rightarrow> string \<Rightarrow> int list \<Rightarrow> event list \<times> (exn + by_bench)" where
  "collect_jsons w repo run_ids =
     (case collect_tagged w repo run_ids of
        (out, Inl e) \<Rightarrow> (out, Inl e)
      | (out, Inr tb) \<Rightarrow> (out, Inr (untag tb)))"

subsection \<open>Analysis: \<^verbatim>\<open>analyze\<close>\<close>

definition hf_get :: "string \<Rightarrow> hf_result \<Rightarrow> exn + real" where
  "hf_get key r =
     (case (if key = ''min'' then hf_min r else if key = ''mean'' then hf_mean r else None) of
        None \<Rightarrow> Inl KeyError
      | Some v \<Rightarrow> Inr v)"

text \<open>The comprehension \<^verbatim>\<open>[r[key] for r in results]\<close>.\<close>

fun get_values :: "string \<Rightarrow> hf_result list \<Rightarrow> exn + real list" where
  "get_values key [] = Inr []"
| "get_values key (r # results) =
     (case hf_get key r of
        Inl e \<Rightarrow> Inl e
      | Inr v \<Rightarrow> (case get_values key results of Inl e \<Rightarrow> Inl e | Inr vs \<Rightarrow> Inr (v # vs)))"

type_synonym rows = "(string \<times> stats_row) list"

definition skip_line :: "string \<Rightarrow> nat \<Rightarrow> string" where
  "skip_line bench n = ''  '' @ bench @ '': only '' @ str_int (int n) @ '' run(s), skipping''"

text \<open>
  The inner loop of a pass, over \<^verbatim>\<open>by_bench.items()\<close>. The function called on the values of
  a benchmark is the parameter \<open>st\<close>; the script calls \<^verbatim>\<open>stats\<close>.
\<close>

fun analyze_rows_with ::
  "(real list \<Rightarrow> exn + stats_row) \<Rightarrow> string \<Rightarrow> by_bench \<Rightarrow> rows
     \<Rightarrow> event list \<times> (exn + rows)" where
  "analyze_rows_with st key [] rows = ([], Inr rows)"
| "analyze_rows_with st key ((bench, results) # rest) rows =
     (case get_values key results of
        Inl e \<Rightarrow> ([], Inl e)
      | Inr values \<Rightarrow>
          if length values < 2 then
            (case analyze_rows_with st key rest rows of
               (out, r) \<Rightarrow> ((Stderr, skip_line bench (length values)) # out, r))
          else
            (case st values of
               Inl e \<Rightarrow> ([], Inl e)
             | Inr s \<Rightarrow> analyze_rows_with st key rest (dict_set bench s rows)))"

definition analyze_rows :: "string \<Rightarrow> by_bench \<Rightarrow> rows \<Rightarrow> event list \<times> (exn + rows)" where
  "analyze_rows = analyze_rows_with stats"

definition table_header :: "nat \<Rightarrow> string" where
  "table_header col_w =
     ljust col_w ''benchmark'' @ ''  '' @ rjust 12 ''average'' @ ''  '' @ rjust 10 ''std'' @ ''  ''
       @ rjust 7 ''cv'' @ ''  '' @ rjust 12 ''range'' @ ''  '' @ rjust 7 ''range%''"

definition table_line :: "nat \<Rightarrow> string \<times> stats_row \<Rightarrow> string" where
  "table_line col_w x =
     (case x of (bench, s) \<Rightarrow>
        ljust col_w bench @ ''  '' @ rjust 12 (row_average s) @ ''  '' @ rjust 10 (row_std s)
          @ ''  '' @ rjust 7 (row_cv s) @ ''  '' @ rjust 12 (row_range s) @ ''  ''
          @ rjust 7 (row_range_coeff s))"

definition pass_title :: "string \<Rightarrow> by_bench \<Rightarrow> string" where
  "pass_title label by_bench =
     [CHR 0x0A] @ ''=== Variance using walltime '' @ label @ '' (''
       @ str_int (int (case by_bench of [] \<Rightarrow> 0 | (bench, results) # rest \<Rightarrow> length results))
       @ '' runs) ===''"

definition sorted_rows :: "rows \<Rightarrow> rows" where
  "sorted_rows rows = sort_key (\<lambda>x. - row_cv_raw (snd x)) rows"

definition print_table :: "string \<Rightarrow> by_bench \<Rightarrow> rows \<Rightarrow> event list" where
  "print_table label by_bench rows =
     (let col_w = fold max (map (\<lambda>x. length (fst x)) rows) 0 + 2;
          header = table_header col_w
      in [(Stdout, pass_title label by_bench), (Stdout, header),
          (Stdout, replicate (length header) (CHR ''-''))]
         @ map (\<lambda>x. (Stdout, table_line col_w x)) (sorted_rows rows))"

definition analyze_pass :: "string \<Rightarrow> string \<Rightarrow> by_bench \<Rightarrow> event list \<times> (exn + unit)" where
  "analyze_pass label key by_bench =
     (case analyze_rows key by_bench [] of
        (out, Inl e) \<Rightarrow> (out, Inl e)
      | (out, Inr rows) \<Rightarrow>
          if rows = [] then (out, Inr ()) else (out @ print_table label by_bench rows, Inr ()))"

definition analyze :: "by_bench \<Rightarrow> event list \<times> (exn + unit)" where
  "analyze by_bench =
     (case analyze_pass ''MIN'' ''min'' by_bench of
        (out1, Inl e) \<Rightarrow> (out1, Inl e)
      | (out1, Inr u) \<Rightarrow>
          (case analyze_pass ''MEAN'' ''mean'' by_bench of (out2, r) \<Rightarrow> (out1 @ out2, r)))"

subsection \<open>The program: \<^verbatim>\<open>main\<close>\<close>

text \<open>The parsed command line; \<^verbatim>\<open>--workflow-run-ids\<close> is \<^term>\<open>None\<close> when it is not given.\<close>

record args =
  repo :: string
  branch :: string
  workflow_run_ids :: "int list option"

definition main :: "world \<Rightarrow> args \<Rightarrow> event list \<times> (error + unit)" where
  "main w a =
     (case (case workflow_run_ids a of
              Some (i # ids) \<Rightarrow> ([], Inr (i # ids))
            | _ \<Rightarrow> get_run_ids w (repo a) (branch a)) of
        (out1, Inl e) \<Rightarrow> (out1, Inl e)
      | (out1, Inr run_ids) \<Rightarrow>
          (let out2 = [(Stdout, ''Using '' @ str_int (int (length run_ids)) @ '' run(s): ''
                                  @ repr_int_list run_ids)]
           in case collect_jsons w (repo a) run_ids of
                (out3, Inl e) \<Rightarrow> (out1 @ out2 @ out3, Inl (Uncaught e))
              | (out3, Inr by_bench) \<Rightarrow>
                  (case by_bench of
                     [] \<Rightarrow>
                       (out1 @ out2 @ out3 @ [(Stderr, ''No results collected.'')],
                        Inl (SystemExit 1))
                   | (bench, results) # rest \<Rightarrow>
                       (let n_runs = length results;
                            out4 = [(Stdout, [CHR 0x0A] @ ''Collected '' @ str_int (int n_runs)
                                               @ '' run(s) across ''
                                               @ str_int (int (length by_bench))
                                               @ '' benchmark(s)'')]
                        in case analyze by_bench of
                             (out5, Inl e) \<Rightarrow>
                               (out1 @ out2 @ out3 @ out4 @ out5, Inl (Uncaught e))
                           | (out5, Inr u) \<Rightarrow> (out1 @ out2 @ out3 @ out4 @ out5, Inr u)))))"


subsection \<open>The two conditions of a deliberate exit\<close>




subsection \<open>A condition on the artifacts of the runs\<close>



section \<open>Verification\<close>

subsection \<open>Evaluation and shape of the formatted numbers\<close>

lemma digits10_numeral:
  "digits10 (numeral k) =
     (if (numeral k :: nat) < 10 then [digit_char (numeral k)]
      else digits10 (numeral k div 10) @ [digit_char (numeral k mod 10)])"
  "digits10 0 = ''0''" "digits10 1 = ''1''" "digits10 (Suc 0) = ''1''"
  by (simp_all add: digits10.simps[of "numeral k"] digits10.simps[of 0] digits10.simps[of 1]
      digits10.simps[of "Suc 0"] digit_char_def)






lemma digits10_nonempty: "digits10 n \<noteq> []"
  by (subst digits10.simps) simp


subsection \<open>The duration formatter\<close>



subsection \<open>The statistics computation\<close>



lemma foldl_max_eq: "foldl (\<lambda>m v. if m < v then v else m) x xs = Max (set (x # xs))" for x :: real
proof (induction xs arbitrary: x)
  case Nil
  show ?case by simp
next
  case (Cons y ys)
  have "(if x < y then y else x) = max x y" by (simp add: max_def)
  then have "foldl (\<lambda>m v. if m < v then v else m) x (y # ys) = Max (set (max x y # ys))"
    using Cons.IH[of "max x y"] by simp
  also have "\<dots> = Max (insert (max x y) (set ys))" by simp
  also have "\<dots> = Max (insert x (insert y (set ys)))"
    by (cases "set ys = {}") (simp_all add: max.assoc)
  finally show ?case by simp
qed

lemma foldl_min_eq: "foldl (\<lambda>m v. if v < m then v else m) x xs = Min (set (x # xs))" for x :: real
proof (induction xs arbitrary: x)
  case Nil
  show ?case by simp
next
  case (Cons y ys)
  have "(if y < x then y else x) = min x y" by (simp add: min_def)
  then have "foldl (\<lambda>m v. if v < m then v else m) x (y # ys) = Min (set (min x y # ys))"
    using Cons.IH[of "min x y"] by simp
  also have "\<dots> = Min (insert (min x y) (set ys))" by simp
  also have "\<dots> = Min (insert x (insert y (set ys)))"
    by (cases "set ys = {}") (simp_all add: min.assoc)
  finally show ?case by simp
qed

lemma py_max_eq: "xs \<noteq> [] \<Longrightarrow> py_max xs = Inr (Max (set xs))"
  by (cases xs) (simp_all only: py_max.simps foldl_max_eq, simp)

lemma py_min_eq: "xs \<noteq> [] \<Longrightarrow> py_min xs = Inr (Min (set xs))"
  by (cases xs) (simp_all only: py_min.simps foldl_min_eq, simp)

lemma stats_nonempty:
  assumes "values \<noteq> []"
  shows "stats values =
    Inr \<lparr> row_average = format_duration (average values),
          row_std = format_duration (std values),
          row_cv = percent (cv values),
          row_range = format_duration (Max (set values) - Min (set values)),
          row_range_coeff = percent (rc (Max (set values) - Min (set values)) values),
          row_cv_raw = (case cv values of Some c \<Rightarrow> c | None \<Rightarrow> - 1) \<rparr>"
  using assms by (simp add: stats_def py_max_eq py_min_eq Let_def)






lemma format_duration_us: "s < 1 / 1000 \<Longrightarrow> format_duration s = fmt_fixed 2 (s * 1000000) @ unit_us"
  by (simp add: format_duration_def mult.commute)

lemma format_duration_ms:
  "1 / 1000 \<le> s \<Longrightarrow> s < 1 \<Longrightarrow> format_duration s = fmt_fixed 2 (s * 1000) @ '' ms''"
  by (simp add: format_duration_def)

















subsection \<open>The analysis loop\<close>

lemma get_values_length: "get_values key rs = Inr vs \<Longrightarrow> length vs = length rs"
  by (induction rs arbitrary: vs) (auto split: sum.splits)

lemma dict_set_fresh: "k \<notin> fst ` set d \<Longrightarrow> dict_set k v d = d @ [(k, v)]"
  by (induction d) auto

lemma fold_dict_set_fresh:
  assumes "distinct (map fst xs)" and "fst ` set xs \<inter> fst ` set d = {}"
  shows "fold (\<lambda>x. dict_set (fst x) (f x)) xs d = d @ map (\<lambda>x. (fst x, f x)) xs"
  using assms
proof (induction xs arbitrary: d)
  case Nil
  show ?case by simp
next
  case (Cons x xs)
  have fresh: "fst x \<notin> fst ` set d" using Cons.prems(2) by auto
  have d: "distinct (map fst xs)" using Cons.prems(1) by simp
  have i: "fst ` set xs \<inter> fst ` set (d @ [(fst x, f x)]) = {}"
    using Cons.prems by auto
  show ?case using Cons.IH[OF d i] by (simp add: dict_set_fresh[OF fresh])
qed

lemma analyze_rows_with_char:
  assumes "\<forall>x\<in>set bb. \<exists>vs. get_values key (snd x) = Inr vs"
    and "\<forall>vs. 2 \<le> length vs \<longrightarrow> (\<exists>s. st vs = Inr s)"
  shows "analyze_rows_with st key bb rows0 =
     (map (\<lambda>x. (Stderr, skip_line (fst x) (length (snd x)))) (filter (\<lambda>x. length (snd x) < 2) bb),
      Inr (fold (\<lambda>x. dict_set (fst x) (projr (st (projr (get_values key (snd x))))))
             (filter (\<lambda>x. \<not> length (snd x) < 2) bb) rows0))"
  using assms(1)
proof (induction bb arbitrary: rows0)
  case Nil
  show ?case by simp
next
  case (Cons x bb)
  obtain bench results where x: "x = (bench, results)" by (cases x)
  from Cons.prems obtain vs where vs: "get_values key results = Inr vs" by (auto simp: x)
  have len: "length vs = length results" by (rule get_values_length[OF vs])
  have rest: "\<forall>x\<in>set bb. \<exists>vs. get_values key (snd x) = Inr vs" using Cons.prems by simp
  show ?case
  proof (cases "length results < 2")
    case True
    then show ?thesis using Cons.IH[OF rest, of rows0] by (simp add: x vs len)
  next
    case False
    then have "2 \<le> length vs" using len by simp
    with assms(2) obtain s where s: "st vs = Inr s" by blast
    show ?thesis using False Cons.IH[OF rest, of "dict_set bench s rows0"]
      by (simp add: x vs len s)
  qed
qed

lemma stats_total: "(\<exists>e. stats vs = Inl e) \<longleftrightarrow> vs = []"
proof (cases "vs = []")
  case True
  then show ?thesis by (simp add: stats_def)
next
  case False
  then show ?thesis by (simp add: stats_nonempty)
qed

lemma stats_ok: "2 \<le> length vs \<Longrightarrow> \<exists>s. stats vs = Inr s"
proof -
  assume "2 \<le> length vs"
  then have "vs \<noteq> []" by auto
  then show ?thesis by (simp add: stats_nonempty)
qed

lemma analyze_rows_char:
  assumes "distinct (map fst bb)"
    and "\<forall>x\<in>set bb. \<exists>vs. get_values key (snd x) = Inr vs"
  shows "analyze_rows key bb [] =
     (map (\<lambda>x. (Stderr, skip_line (fst x) (length (snd x)))) (filter (\<lambda>x. length (snd x) < 2) bb),
      Inr (map (\<lambda>x. (fst x, projr (stats (projr (get_values key (snd x))))))
             (filter (\<lambda>x. \<not> length (snd x) < 2) bb)))"
proof -
  have d: "distinct (map fst (filter (\<lambda>x. \<not> length (snd x) < 2) bb))"
    using assms(1) by (rule distinct_map_filter)
  have ok: "\<forall>vs. 2 \<le> length vs \<longrightarrow> (\<exists>s. stats vs = Inr s)" using stats_ok by blast
  show ?thesis
    unfolding analyze_rows_def analyze_rows_with_char[OF assms(2) ok]
    using fold_dict_set_fresh[OF d, of "[]"] by simp
qed

lemma analyze_rows_with_agree:
  assumes "\<forall>vs. 2 \<le> length vs \<longrightarrow> st vs = st' vs"
  shows "analyze_rows_with st key bb rows = analyze_rows_with st' key bb rows"
proof (induction bb arbitrary: rows)
  case Nil
  show ?case by simp
next
  case (Cons x bb)
  obtain bench results where x: "x = (bench, results)" by (cases x)
  show ?case
  proof (cases "get_values key results")
    case (Inl e)
    then show ?thesis by (simp add: x)
  next
    case (Inr vs)
    show ?thesis
    proof (cases "length vs < 2")
      case True
      then show ?thesis using Cons.IH by (simp add: x Inr)
    next
      case False
      then have "st vs = st' vs" using assms by simp
      then show ?thesis using False Cons.IH by (simp add: x Inr split: sum.splits)
    qed
  qed
qed

lemma get_values_error: "get_values key rs = Inl e \<Longrightarrow> e = KeyError"
  by (induction rs) (auto simp: hf_get_def split: sum.splits option.splits if_splits)

lemma analyze_rows_error: "analyze_rows_with stats key bb rows = (out, Inl e) \<Longrightarrow> e = KeyError"
proof (induction bb arbitrary: rows out)
  case Nil
  then show ?case by simp
next
  case (Cons x bb)
  obtain bench results where x: "x = (bench, results)" by (cases x)
  show ?case
  proof (cases "get_values key results")
    case (Inl e')
    then show ?thesis using Cons.prems get_values_error[OF Inl] by (simp add: x)
  next
    case (Inr vs)
    show ?thesis
    proof (cases "length vs < 2")
      case True
      then show ?thesis using Cons.prems Cons.IH
        by (auto simp: x Inr split: prod.splits)
    next
      case False
      then obtain s where "stats vs = Inr s" using stats_ok[of vs] by auto
      then show ?thesis using False Cons.prems Cons.IH by (simp add: x Inr)
    qed
  qed
qed

lemma analyze_pass_error: "analyze_pass label key bb = (out, Inl e) \<Longrightarrow> e = KeyError"
  using analyze_rows_error[of key bb "[]"]
  by (auto simp: analyze_pass_def analyze_rows_def split: prod.splits sum.splits if_splits)

lemma analyze_error: "analyze bb = (out, Inl e) \<Longrightarrow> e = KeyError"
  using analyze_pass_error
  by (auto simp: analyze_def split: prod.splits sum.splits)

text \<open>
  Claim C10. \<open>stats\<close> is only ever called on lists of at least two values: the loop of
  \<open>analyze\<close> gives the same result with any function that agrees with \<open>stats\<close> on the lists of
  length at least two. \<open>stats\<close> raises only on the empty list, so its division by the length,
  its guarded division by the average and its \<^verbatim>\<open>max\<close> and \<^verbatim>\<open>min\<close> are defined at every
  call, and neither the loop nor \<open>analyze\<close> ends in a \<^verbatim>\<open>ZeroDivisionError\<close> or in the
  \<^verbatim>\<open>ValueError\<close> of an empty \<^verbatim>\<open>max\<close> or \<^verbatim>\<open>min\<close>.
\<close>

theorem stats_call_site_safe:
  "((\<exists>e. stats vs = Inl e) \<longleftrightarrow> vs = [])
   \<and> ((\<forall>xs. 2 \<le> length xs \<longrightarrow> st xs = stats xs)
        \<longrightarrow> analyze_rows_with st key by_bench rows = analyze_rows key by_bench rows)
   \<and> snd (analyze_rows key by_bench rows) \<notin> {Inl ZeroDivisionError, Inl ValueError}
   \<and> snd (analyze by_bench) \<notin> {Inl ZeroDivisionError, Inl ValueError}"
proof -
  have a: "(\<forall>xs. 2 \<le> length xs \<longrightarrow> st xs = stats xs)
        \<longrightarrow> analyze_rows_with st key by_bench rows = analyze_rows key by_bench rows"
    using analyze_rows_with_agree[of st stats key by_bench rows] by (simp add: analyze_rows_def)
  have b: "snd (analyze_rows key by_bench rows) \<notin> {Inl ZeroDivisionError, Inl ValueError}"
    using analyze_rows_error[of key by_bench rows "fst (analyze_rows key by_bench rows)"]
    by (cases "analyze_rows key by_bench rows") (auto simp: analyze_rows_def)
  have c: "snd (analyze by_bench) \<notin> {Inl ZeroDivisionError, Inl ValueError}"
    using analyze_error[of by_bench "fst (analyze by_bench)"]
    by (cases "analyze by_bench") auto
  from stats_total[of vs] a b c show ?thesis by blast
qed

theorem stats_call_site_safe_witness:
  "analyze_rows_with (\<lambda>ys. if length ys < 2 then Inl ValueError else stats ys) ''min''
        [(''a'', [\<lparr>hf_mean = Some 2, hf_min = Some 1, hf_times = Some [1, 3]\<rparr>]),
         (''b'', [])] []
      = analyze_rows ''min''
        [(''a'', [\<lparr>hf_mean = Some 2, hf_min = Some 1, hf_times = Some [1, 3]\<rparr>]),
         (''b'', [])] []"
  using stats_call_site_safe[of "[]" "\<lambda>ys. if length ys < 2 then Inl ValueError else stats ys"
      "''min''" "[(''a'', [\<lparr>hf_mean = Some 2, hf_min = Some 1, hf_times = Some [1, 3]\<rparr>]),
         (''b'', [])]" "[]"]
  by simp

lemma analyze_pass_char:
  assumes "distinct (map fst bb)"
    and "\<forall>x\<in>set bb. \<exists>vs. get_values key (snd x) = Inr vs"
  shows "analyze_pass label key bb =
     (map (\<lambda>x. (Stderr, skip_line (fst x) (length (snd x)))) (filter (\<lambda>x. length (snd x) < 2) bb)
        @ (if filter (\<lambda>x. \<not> length (snd x) < 2) bb = [] then []
           else print_table label bb
                  (map (\<lambda>x. (fst x, projr (stats (projr (get_values key (snd x))))))
                     (filter (\<lambda>x. \<not> length (snd x) < 2) bb))),
      Inr ())"
  by (simp add: analyze_pass_def analyze_rows_char[OF assms])

lemma on_stream_append: "on_stream s (xs @ ys) = on_stream s xs @ on_stream s ys"
  by (simp add: on_stream_def)

lemma on_stream_Nil: "on_stream s [] = []"
  by (simp add: on_stream_def)

lemma on_stream_skips:
  "on_stream Stderr (map (\<lambda>x. (Stderr, f x)) xs) = map f xs"
  "on_stream Stdout (map (\<lambda>x. (Stderr, f x)) xs) = []"
  "on_stream Stdout (map (\<lambda>x. (Stdout, f x)) xs) = map f xs"
  "on_stream Stderr (map (\<lambda>x. (Stdout, f x)) xs) = []"
  by (induction xs) (simp_all add: on_stream_def)

lemma on_stream_print_table:
  "on_stream Stderr (print_table label bb rows) = []"
  "on_stream Stdout (print_table label bb rows) =
     [pass_title label bb, table_header (fold max (map (\<lambda>x. length (fst x)) rows) 0 + 2),
      replicate (length (table_header (fold max (map (\<lambda>x. length (fst x)) rows) 0 + 2))) (CHR ''-'')]
     @ map (table_line (fold max (map (\<lambda>x. length (fst x)) rows) 0 + 2)) (sorted_rows rows)"
  using on_stream_skips(3,4)[of "table_line (fold max (map (\<lambda>x. length (fst x)) rows) 0 + 2)"
      "sorted_rows rows"]
  by (simp_all add: print_table_def Let_def on_stream_def)

text \<open>
  Claim C6. In a pass over a dictionary whose results all have the selected key, a benchmark
  with fewer than two values is skipped with one diagnostic on standard error and gets no row;
  the pass still returns normally, and the rows of its table are exactly the benchmarks with at
  least two values, each with the statistics of its values. If every benchmark is skipped, the
  pass prints nothing on standard output: no title, no header and no row.
\<close>

theorem analyze_pass_skips:
  assumes "distinct (map fst by_bench)"
    and "\<forall>x\<in>set by_bench. \<exists>vs. get_values key (snd x) = Inr vs"
  shows "\<exists>rows. analyze_pass label key by_bench =
           (map (\<lambda>x. (Stderr, skip_line (fst x) (length (snd x))))
              (filter (\<lambda>x. length (snd x) < 2) by_bench)
            @ (if rows = [] then [] else print_table label by_bench rows), Inr ())
       \<and> list_all2 (\<lambda>r x. fst r = fst x
                      \<and> (\<exists>vs. get_values key (snd x) = Inr vs \<and> stats vs = Inr (snd r)))
           rows (filter (\<lambda>x. 2 \<le> length (snd x)) by_bench)
       \<and> on_stream Stderr (fst (analyze_pass label key by_bench))
           = map (\<lambda>x. skip_line (fst x) (length (snd x)))
               (filter (\<lambda>x. length (snd x) < 2) by_bench)
       \<and> on_stream Stdout (fst (analyze_pass label key by_bench))
           = (if rows = [] then [] else on_stream Stdout (print_table label by_bench rows))
       \<and> ((\<forall>x\<in>set by_bench. length (snd x) < 2)
            \<longrightarrow> on_stream Stdout (fst (analyze_pass label key by_bench)) = [])"
proof -
  let ?kept = "filter (\<lambda>x. \<not> length (snd x) < 2) by_bench"
  let ?rows = "map (\<lambda>x. (fst x, projr (stats (projr (get_values key (snd x)))))) ?kept"
  have k: "filter (\<lambda>x. 2 \<le> length (snd x)) by_bench = ?kept"
    by (rule filter_cong) auto
  have e: "(?kept = []) = (?rows = [])" by simp
  have 1: "analyze_pass label key by_bench =
           (map (\<lambda>x. (Stderr, skip_line (fst x) (length (snd x))))
              (filter (\<lambda>x. length (snd x) < 2) by_bench)
            @ (if ?rows = [] then [] else print_table label by_bench ?rows), Inr ())"
    unfolding analyze_pass_char[OF assms] e[symmetric] ..
  have 2: "list_all2 (\<lambda>r x. fst r = fst x
                      \<and> (\<exists>vs. get_values key (snd x) = Inr vs \<and> stats vs = Inr (snd r)))
           ?rows ?kept"
  proof (rule list_all2_all_nthI)
    show "length ?rows = length ?kept" by simp
  next
    fix n assume "n < length ?rows"
    then have n: "n < length ?kept" by simp
    then have m: "?kept ! n \<in> set ?kept" by (rule nth_mem)
    then have in_bb: "?kept ! n \<in> set by_bench" and long: "\<not> length (snd (?kept ! n)) < 2"
      by simp_all
    from assms(2) in_bb obtain vs where vs: "get_values key (snd (?kept ! n)) = Inr vs"
      by blast
    have "2 \<le> length vs" using long get_values_length[OF vs] by simp
    then obtain s where s: "stats vs = Inr s" using stats_ok by blast
    show "fst (?rows ! n) = fst (?kept ! n)
           \<and> (\<exists>vs. get_values key (snd (?kept ! n)) = Inr vs \<and> stats vs = Inr (snd (?rows ! n)))"
      using n vs s by simp
  qed
  have 3: "on_stream Stderr (fst (analyze_pass label key by_bench))
           = map (\<lambda>x. skip_line (fst x) (length (snd x)))
               (filter (\<lambda>x. length (snd x) < 2) by_bench)"
    by (simp add: 1 on_stream_append on_stream_skips on_stream_print_table on_stream_Nil)
  have 4: "on_stream Stdout (fst (analyze_pass label key by_bench))
           = (if ?rows = [] then [] else on_stream Stdout (print_table label by_bench ?rows))"
    by (simp add: 1 on_stream_append on_stream_skips on_stream_Nil)
  have 5: "(\<forall>x\<in>set by_bench. length (snd x) < 2)
            \<longrightarrow> on_stream Stdout (fst (analyze_pass label key by_bench)) = []"
  proof
    assume "\<forall>x\<in>set by_bench. length (snd x) < 2"
    then have "?kept = []" by (simp add: filter_empty_conv)
    then have "?rows = []" by simp
    then show "on_stream Stdout (fst (analyze_pass label key by_bench)) = []"
      using 4 by simp
  qed
  show ?thesis
    apply (rule exI[of _ ?rows])
    unfolding k
    using 1 2 3 4 5 by blast
qed


theorem analyze_pass_skips_witness:
  "distinct (map fst [(''solo'', [\<lparr>hf_mean = Some 2, hf_min = Some 1, hf_times = Some [1, 3]\<rparr>]),
                      (''lone'', [\<lparr>hf_mean = Some 5, hf_min = Some 4, hf_times = Some [4, 6]\<rparr>])])
   \<and> list_all (\<lambda>x. (\<exists>vs. get_values ''min'' (snd x) = Inr vs) \<and> length (snd x) < 2)
         [(''solo'', [\<lparr>hf_mean = Some 2, hf_min = Some 1, hf_times = Some [1, 3]\<rparr>]),
          (''lone'', [\<lparr>hf_mean = Some 5, hf_min = Some 4, hf_times = Some [4, 6]\<rparr>])]
   \<and> on_stream Stdout (fst (analyze_pass ''MIN'' ''min''
         [(''solo'', [\<lparr>hf_mean = Some 2, hf_min = Some 1, hf_times = Some [1, 3]\<rparr>]),
          (''lone'', [\<lparr>hf_mean = Some 5, hf_min = Some 4, hf_times = Some [4, 6]\<rparr>])])) = []
   \<and> on_stream Stderr (fst (analyze_pass ''MIN'' ''min''
         [(''solo'', [\<lparr>hf_mean = Some 2, hf_min = Some 1, hf_times = Some [1, 3]\<rparr>]),
          (''lone'', [\<lparr>hf_mean = Some 5, hf_min = Some 4, hf_times = Some [4, 6]\<rparr>])]))
       = [''  solo: only 1 run(s), skipping'', ''  lone: only 1 run(s), skipping'']"
proof -
  let ?bb = "[(''solo'', [\<lparr>hf_mean = Some 2, hf_min = Some 1, hf_times = Some [1, 3]\<rparr>]),
              (''lone'', [\<lparr>hf_mean = Some (5 :: real), hf_min = Some (4 :: real),
                           hf_times = Some [4, 6 :: real]\<rparr>])]"
  have d: "distinct (map fst ?bb)" by simp
  have k: "\<forall>x\<in>set ?bb. \<exists>vs. get_values ''min'' (snd x) = Inr vs" by (simp add: hf_get_def)
  have s: "\<forall>x\<in>set ?bb. length (snd x) < 2" by simp
  from analyze_pass_skips[OF d k, of "''MIN''"] s
  have "on_stream Stdout (fst (analyze_pass ''MIN'' ''min'' ?bb)) = []"
    and "on_stream Stderr (fst (analyze_pass ''MIN'' ''min'' ?bb))
           = map (\<lambda>x. skip_line (fst x) (length (snd x))) (filter (\<lambda>x. length (snd x) < 2) ?bb)"
    by blast+
  then show ?thesis using d k s by (simp add: skip_line_def str_int_def digits10_numeral)
qed

subsection \<open>The order of the table\<close>

























subsection \<open>Artifact collection\<close>

lemmas str_eval = str_int_def digits10_numeral digit_char_def repr_int_list_def squote_def
































text \<open>
  Claim C8. The skip of a run without a perfcompare artifact is meant to be logged on standard
  error, as the skip of a benchmark is; \<^verbatim>\<open>collect_jsons\<close> prints it without
  \<^verbatim>\<open>file=sys.stderr\<close>. For one run whose only artifact is named \<^verbatim>\<open>coverage\<close>, the message
  of the skip is on standard output, and only the final diagnostic is on standard error.
\<close>

theorem run_skip_printed_on_stdout:
  "main \<lparr> api_workflow_runs = (\<lambda>repo. Inr []),
          api_run_artifacts = (\<lambda>repo rid. Inr [\<lparr>artifact_id = 7, artifact_name = ''coverage''\<rparr>]),
          api_artifact_zip = (\<lambda>repo aid. Inr []) \<rparr>
        \<lparr> repo = ''mozilla/neqo'', branch = ''main'', workflow_run_ids = Some [1] \<rparr>
     = ([(Stdout, ''Using 1 run(s): [1]''),
         (Stdout, ''  run 1: no perfcompare artifact, skipping''),
         (Stderr, ''No results collected.'')],
        Inl (SystemExit 1))"
  by (simp add: main_def collect_jsons_def collect_tagged_def untag_def startswith_def str_eval)

subsection \<open>The exit status\<close>

















end
